theory Spec2Isabelle
  imports Main "HOL-Library.Multiset" "HOL-Library.Sublist"
begin

section \<open>Data model\<close>

text \<open>
  The row type of the \<open>thesis_submissions\<close> table.  The public form builds a row
  without an identifier (\<open>submissionData\<close> in \<open>handleSubmit\<close>) and the store adds
  the \<open>id\<close>; the admin view reads rows with it (interface \<open>ThesisSubmission\<close> of
  \<open>UserRecords.tsx\<close>).  So the eight fields that both share are one record and
  \<open>ThesisSubmission\<close> extends it by the identifier, written \<open>id_field\<close> since
  \<open>id\<close> is the identity function of HOL.  A field of type \<open>string | null\<close> is a
  \<open>string option\<close>.
\<close>

record submission_fields =
  full_name :: string
  user_type :: string
  student_number :: "string option"
  school :: "string option"
  campus :: string
  program :: "string option"
  thesis_title :: string
  submission_date :: string

record ThesisSubmission = submission_fields +
  id_field :: string

datatype sort_order = Asc | Desc

text \<open>
  The view state that the filter and the sort read: the eight \<open>useState\<close> cells
  \<open>searchTerm\<close>, \<open>searchField\<close>, \<open>filterType\<close>, \<open>campusFilter\<close>,
  \<open>dateFilter\<close>, \<open>dateRange\<close> (an object with the fields \<open>start\<close> and
  \<open>end\<close>, here \<open>dateRange_start\<close> and \<open>dateRange_end\<close>), \<open>sortBy\<close> and
  \<open>sortOrder\<close>.  \<open>initialCriteria\<close> holds their initial values.
\<close>

record criteria =
  searchTerm :: string
  searchField :: string
  filterType :: string
  campusFilter :: string
  dateFilter :: string
  dateRange_start :: string
  dateRange_end :: string
  sortBy :: string
  sortOrder :: sort_order

definition initialCriteria :: criteria where
  "initialCriteria =
     \<lparr>searchTerm = [], searchField = ''all'', filterType = ''all'', campusFilter = ''all'',
      dateFilter = [], dateRange_start = [], dateRange_end = [],
      sortBy = ''submission_date'', sortOrder = Desc\<rparr>"

section \<open>The JavaScript runtime\<close>

text \<open>
  The component calls into the JavaScript runtime for dates, for locale-aware string
  comparison, and for the lower case and the trimming of a string.  What these calls
  return depends on the engine (its date parser, its Unicode tables), the time zone and
  the locale of the browser, none of which is part of the repository, so they are the
  fields of a parameter:

  \<^item> \<open>Date_parse s\<close> is the time value of \<open>new Date(s)\<close> in milliseconds since the
    epoch, \<open>None\<close> when the date is invalid (the time value is \<open>NaN\<close>);
  \<^item> \<open>localDay t\<close> numbers the calendar day of the instant \<open>t\<close> in the local time
    zone;
  \<^item> \<open>localeCompare a b\<close> is \<open>a.localeCompare(b)\<close>;
  \<^item> \<open>toLocaleDateString d\<close> is \<open>d.toLocaleDateString()\<close>;
  \<^item> \<open>toLowerCase s\<close> is \<open>s.toLowerCase()\<close>, which folds every letter of Unicode;
  \<^item> \<open>trim s\<close> is \<open>s.trim()\<close>, which drops the white space and the line
    terminators of Unicode at both ends.
\<close>

record js_runtime =
  Date_parse :: "string \<Rightarrow> int option"
  localDay :: "int \<Rightarrow> int"
  localeCompare :: "string \<Rightarrow> string \<Rightarrow> int"
  toLocaleDateString :: "int option \<Rightarrow> string"
  toLowerCase :: "string \<Rightarrow> string"
  trim :: "string \<Rightarrow> string"

text \<open>
  \<open>d.toDateString()\<close> renders the local calendar day of a valid date (weekday, month,
  day of the month, year) and is the text \<open>Invalid Date\<close> for an invalid one.  Two
  renderings are the same text exactly when both dates are invalid or both are valid
  and fall on the same local calendar day; the model keeps that much of the text.
\<close>

datatype date_string = Invalid_Date | Local_Day int

definition toDateString :: "js_runtime \<Rightarrow> int option \<Rightarrow> date_string" where
  "toDateString E d = (case d of None \<Rightarrow> Invalid_Date | Some t \<Rightarrow> Local_Day (localDay E t))"

text \<open>
  The relational operators on two \<open>Date\<close> objects compare their time values; a
  comparison with \<open>NaN\<close> on either side is false.
\<close>

definition date_ge :: "int option \<Rightarrow> int option \<Rightarrow> bool" where
  "date_ge a b = (case a of None \<Rightarrow> False | Some x \<Rightarrow> (case b of None \<Rightarrow> False | Some y \<Rightarrow> x \<ge> y))"

definition date_le :: "int option \<Rightarrow> int option \<Rightarrow> bool" where
  "date_le a b = (case a of None \<Rightarrow> False | Some x \<Rightarrow> (case b of None \<Rightarrow> False | Some y \<Rightarrow> x \<le> y))"

text \<open>
  Strings are lists of characters: ASCII text character by character, as in all the
  literals of the source, and text beyond ASCII by the bytes of its UTF-8 form, on which
  equality and containment are those of the text itself.  \<open>s.includes(t)\<close> holds when
  \<open>t\<close> occurs in \<open>s\<close> as a contiguous block.  What \<open>toLowerCase\<close> and \<open>trim\<close> make
  of a string is the runtime's.
\<close>

fun includes_str :: "string \<Rightarrow> string \<Rightarrow> bool" where
  "includes_str [] t = (t = [])"
| "includes_str (x # xs) t = (prefix t (x # xs) \<or> includes_str xs t)"

text \<open>\<open>v || ''\<close> for a nullable string \<open>v\<close>: \<open>null\<close> and the empty string give \<open>''\<close>.\<close>

definition orEmpty :: "string option \<Rightarrow> string" where
  "orEmpty v = (case v of None \<Rightarrow> [] | Some s \<Rightarrow> s)"

text \<open>
  \<open>record.student_number || record.school || ''\<close>: the student number when it is
  neither \<open>null\<close> nor empty, else the school under the same condition, else \<open>''\<close>.
\<close>

definition idSchoolValue :: "ThesisSubmission \<Rightarrow> string" where
  "idSchoolValue r =
     (if orEmpty (student_number r) \<noteq> [] then orEmpty (student_number r)
      else orEmpty (school r))"

section \<open>The filter of \<open>filteredAndSortedRecords\<close>\<close>

text \<open>
  The callback of \<open>records.filter\<close> computes four flags and returns their conjunction.
  Each flag is a function here, in the order of the source.
\<close>

definition matchesSearch :: "js_runtime \<Rightarrow> criteria \<Rightarrow> ThesisSubmission \<Rightarrow> bool" where
  "matchesSearch E c r =
     (if trim E (searchTerm c) \<noteq> [] then
        (let searchLower = toLowerCase E (searchTerm c) in
         if searchField c = ''name'' then
           includes_str (toLowerCase E (full_name r)) searchLower
         else if searchField c = ''id_school'' then
           includes_str (toLowerCase E (idSchoolValue r)) searchLower
         else if searchField c = ''program'' then
           includes_str (toLowerCase E (orEmpty (program r))) searchLower
         else if searchField c = ''thesis_title'' then
           includes_str (toLowerCase E (thesis_title r)) searchLower
         else
           includes_str (toLowerCase E (full_name r)) searchLower \<or>
           includes_str (toLowerCase E (thesis_title r)) searchLower \<or>
           includes_str (toLowerCase E (orEmpty (student_number r))) searchLower \<or>
           includes_str (toLowerCase E (orEmpty (school r))) searchLower \<or>
           includes_str (toLowerCase E (orEmpty (program r))) searchLower)
      else True)"

definition matchesUserType :: "criteria \<Rightarrow> ThesisSubmission \<Rightarrow> bool" where
  "matchesUserType c r =
     (filterType c = ''all'' \<or>
      (filterType c = ''lpu'' \<and> user_type r = ''LPU Student'') \<or>
      (filterType c = ''non-lpu'' \<and> user_type r = ''Non-LPU Student''))"

definition matchesCampus :: "criteria \<Rightarrow> ThesisSubmission \<Rightarrow> bool" where
  "matchesCampus c r = (campusFilter c = ''all'' \<or> campus r = campusFilter c)"

text \<open>
  A non-empty string is truthy, and so is every \<open>Date\<close> object, the invalid one
  included: \<open>startDate\<close> is \<open>null\<close> exactly when \<open>dateRange.start\<close> is empty.
\<close>

definition matchesDate :: "js_runtime \<Rightarrow> criteria \<Rightarrow> ThesisSubmission \<Rightarrow> bool" where
  "matchesDate E c r =
     (let recordDate = Date_parse E (submission_date r) in
      if dateFilter c \<noteq> [] then
        (let filterDate = Date_parse E (dateFilter c) in
         toDateString E recordDate = toDateString E filterDate)
      else if dateRange_start c \<noteq> [] \<or> dateRange_end c \<noteq> [] then
        (let startDate = (if dateRange_start c \<noteq> [] then Some (Date_parse E (dateRange_start c)) else None);
             endDate = (if dateRange_end c \<noteq> [] then Some (Date_parse E (dateRange_end c)) else None)
         in case startDate of
              Some s \<Rightarrow>
                (case endDate of
                   Some e \<Rightarrow> date_ge recordDate s \<and> date_le recordDate e
                 | None \<Rightarrow> date_ge recordDate s)
            | None \<Rightarrow>
                (case endDate of
                   Some e \<Rightarrow> date_le recordDate e
                 | None \<Rightarrow> True))
      else True)"

definition filterCallback :: "js_runtime \<Rightarrow> criteria \<Rightarrow> ThesisSubmission \<Rightarrow> bool" where
  "filterCallback E c r =
     (matchesSearch E c r \<and> matchesUserType c r \<and> matchesCampus c r \<and> matchesDate E c r)"

section \<open>The sort of \<open>filteredAndSortedRecords\<close>\<close>

text \<open>
  The comparator.  \<open>comparison\<close> is a JavaScript number: the difference of two time
  values is \<open>NaN\<close> (here \<open>None\<close>) when either date is invalid, and the negation of
  \<open>NaN\<close> is \<open>NaN\<close>.
\<close>

definition timeDiff :: "js_runtime \<Rightarrow> ThesisSubmission \<Rightarrow> ThesisSubmission \<Rightarrow> int option" where
  "timeDiff E a b =
     (case Date_parse E (submission_date a) of
        None \<Rightarrow> None
      | Some x \<Rightarrow> (case Date_parse E (submission_date b) of None \<Rightarrow> None | Some y \<Rightarrow> Some (x - y)))"

definition sortCallback :: "js_runtime \<Rightarrow> criteria \<Rightarrow> ThesisSubmission \<Rightarrow> ThesisSubmission \<Rightarrow> int option" where
  "sortCallback E c a b =
     (let comparison =
        (if sortBy c = ''submission_date'' then timeDiff E a b
         else if sortBy c = ''full_name'' then Some (localeCompare E (full_name a) (full_name b))
         else if sortBy c = ''campus'' then Some (localeCompare E (campus a) (campus b))
         else if sortBy c = ''thesis_title'' then Some (localeCompare E (thesis_title a) (thesis_title b))
         else if sortBy c = ''user_type'' then Some (localeCompare E (user_type a) (user_type b))
         else timeDiff E a b)
      in if sortOrder c = Asc then comparison else map_option uminus comparison)"

text \<open>
  \<open>Array.prototype.sort\<close> with a comparator: a result of \<open>NaN\<close> counts as \<open>0\<close>, and
  the sort is stable.  The model is a stable insertion sort: an element goes in front of
  the first element of the sorted rest that it does not come after.
\<close>

fun sort_insert :: "('a \<Rightarrow> 'a \<Rightarrow> int option) \<Rightarrow> 'a \<Rightarrow> 'a list \<Rightarrow> 'a list" where
  "sort_insert cmp x [] = [x]"
| "sort_insert cmp x (y # ys) =
     (if (case cmp x y of None \<Rightarrow> 0 | Some v \<Rightarrow> v) \<le> 0 then x # y # ys
      else y # sort_insert cmp x ys)"

definition Array_sort :: "('a \<Rightarrow> 'a \<Rightarrow> int option) \<Rightarrow> 'a list \<Rightarrow> 'a list" where
  "Array_sort cmp xs = foldr (sort_insert cmp) xs []"

definition filteredAndSortedRecords :: "js_runtime \<Rightarrow> criteria \<Rightarrow> ThesisSubmission list \<Rightarrow> ThesisSubmission list" where
  "filteredAndSortedRecords E c records =
     Array_sort (sortCallback E c) (filter (filterCallback E c) records)"

section \<open>Arrays on the heap\<close>

text \<open>
  \<open>records\<close> is a JavaScript array, an object that \<open>sort\<close> changes in place while
  \<open>filter\<close> builds a new one.  To tell the two apart the heap is explicit: a list of
  arrays, an array reference being an index into it.  Allocation appends, so the new
  reference is the old length.  A reference outside the heap does not exist in
  JavaScript; the model answers \<open>None\<close> for it.
\<close>

type_synonym 'a heap = "'a list list"

definition Array_filter_ref :: "('a \<Rightarrow> bool) \<Rightarrow> nat \<Rightarrow> 'a heap \<Rightarrow> (nat \<times> 'a heap) option" where
  "Array_filter_ref p a h =
     (if a < length h then Some (length h, h @ [filter p (h ! a)]) else None)"

definition Array_sort_ref :: "('a \<Rightarrow> 'a \<Rightarrow> int option) \<Rightarrow> nat \<Rightarrow> 'a heap \<Rightarrow> (nat \<times> 'a heap) option" where
  "Array_sort_ref cmp a h =
     (if a < length h then Some (a, h[a := Array_sort cmp (h ! a)]) else None)"

text \<open>\<open>records.filter(...).sort(...)\<close> on the heap: \<open>sort\<close> receives what \<open>filter\<close> returned.\<close>

definition filteredAndSortedRecords_ref ::
  "js_runtime \<Rightarrow> criteria \<Rightarrow> nat \<Rightarrow> ThesisSubmission heap \<Rightarrow> (nat \<times> ThesisSubmission heap) option" where
  "filteredAndSortedRecords_ref E c records h =
     (case Array_filter_ref (filterCallback E c) records h of
        None \<Rightarrow> None
      | Some (filtered, h1) \<Rightarrow> Array_sort_ref (sortCallback E c) filtered h1)"

section \<open>\<open>handleExport\<close>\<close>

text \<open>\<open>xs.join(sep)\<close>.\<close>

fun join :: "string \<Rightarrow> string list \<Rightarrow> string" where
  "join sep [] = []"
| "join sep [x] = x"
| "join sep (x # y # ys) = x @ sep @ join sep (y # ys)"

definition headers :: "string list" where
  "headers = [''Name'', ''Type'', ''ID/School'', ''Campus'', ''Program'', ''Thesis Title'', ''Date'']"

text \<open>The seven values of a row, in the order of the array literal.\<close>

definition exportFields :: "js_runtime \<Rightarrow> ThesisSubmission \<Rightarrow> string list" where
  "exportFields E r =
     [full_name r, user_type r, idSchoolValue r, campus r, orEmpty (program r), thesis_title r,
      toLocaleDateString E (Date_parse E (submission_date r))]"

text \<open>The template literal that puts a double quote on each side of a field.\<close>

definition quoteField :: "string \<Rightarrow> string" where
  "quoteField field = [CHR 0x22] @ field @ [CHR 0x22]"

definition exportRow :: "js_runtime \<Rightarrow> ThesisSubmission \<Rightarrow> string" where
  "exportRow E r = join '','' (map quoteField (exportFields E r))"

definition csvContent :: "js_runtime \<Rightarrow> ThesisSubmission list \<Rightarrow> string" where
  "csvContent E view = join [CHR 0x0A] (join '','' headers # map (exportRow E) view)"

text \<open>
  \<open>handleExport\<close> renders the current view and hands the text to the browser as a
  download: the result is the file name and the text.
\<close>

definition handleExport :: "js_runtime \<Rightarrow> criteria \<Rightarrow> ThesisSubmission list \<Rightarrow> string \<times> string" where
  "handleExport E c records =
     (''thesis_submissions.csv'', csvContent E (filteredAndSortedRecords E c records))"

section \<open>\<open>fetchRecords\<close> and \<open>handleDelete\<close>\<close>

text \<open>
  The prop \<open>userRole\<close> has the type \<open>'Admin' | 'Reader' | null\<close> and may be absent:
  a \<open>role option\<close>.
\<close>

datatype role = Admin | Reader

text \<open>The five toasts of the two handlers, by their title and description.\<close>

datatype toast =
    Records_Loaded nat       \<comment> \<open>Records Loaded: Successfully loaded n thesis submission records.\<close>
  | Fetch_Failed             \<comment> \<open>Error (destructive): Failed to fetch submission records ...\<close>
  | Access_Restricted        \<comment> \<open>Access Restricted (destructive): You don't have permission to delete records.\<close>
  | Delete_Success           \<comment> \<open>Success: Record deleted successfully.\<close>
  | Delete_Failed            \<comment> \<open>Error (destructive): Failed to delete record.\<close>

text \<open>The two calls on the store: the select of all rows, and the delete of the row of an id.\<close>

datatype store_call = Select_All | Delete_Eq_Id string

text \<open>
  The state the handlers change: the cells \<open>records\<close> and \<open>loading\<close>, the toasts
  shown so far, the confirmation dialogs opened so far, and the calls made on the store
  so far.
\<close>

record view_state =
  records :: "ThesisSubmission list"
  loading :: bool
  toasts :: "toast list"
  confirms :: nat
  store_calls :: "store_call list"

text \<open>
  What the world answers: the user to the confirmation dialog, the store to the delete
  (\<open>True\<close>: an error, returned or thrown) and to the select (an error, or \<open>data\<close>,
  which may be \<open>null\<close>).
\<close>

datatype select_response = Select_Error | Select_Data "ThesisSubmission list option"

record world =
  confirm_answer :: bool
  delete_error :: bool
  select_answer :: select_response

definition fetchRecords :: "world \<Rightarrow> view_state \<Rightarrow> view_state" where
  "fetchRecords w v =
     (let v1 = v\<lparr>loading := True\<rparr>;
          v2 = v1\<lparr>store_calls := store_calls v1 @ [Select_All]\<rparr>;
          v3 = (case select_answer w of
                  Select_Error \<Rightarrow> v2\<lparr>toasts := toasts v2 @ [Fetch_Failed]\<rparr>
                | Select_Data data \<Rightarrow>
                    (let v' = v2\<lparr>records := (case data of None \<Rightarrow> [] | Some rows \<Rightarrow> rows)\<rparr>
                     in case data of
                          None \<Rightarrow> v'
                        | Some rows \<Rightarrow>
                            if length rows > 0
                            then v'\<lparr>toasts := toasts v' @ [Records_Loaded (length rows)]\<rparr>
                            else v'))
      in v3\<lparr>loading := False\<rparr>)"

definition handleDelete :: "role option \<Rightarrow> world \<Rightarrow> string \<Rightarrow> view_state \<Rightarrow> view_state" where
  "handleDelete userRole w ident v =
     (if userRole = Some Reader then v\<lparr>toasts := toasts v @ [Access_Restricted]\<rparr>
      else
        (let v1 = v\<lparr>confirms := confirms v + 1\<rparr> in
         if \<not> confirm_answer w then v1
         else
           (let v2 = v1\<lparr>store_calls := store_calls v1 @ [Delete_Eq_Id ident]\<rparr> in
            if delete_error w then v2\<lparr>toasts := toasts v2 @ [Delete_Failed]\<rparr>
            else fetchRecords w (v2\<lparr>toasts := toasts v2 @ [Delete_Success]\<rparr>))))"

section \<open>\<open>handleSubmit\<close> of the public form\<close>

text \<open>
  The form state: \<open>userType\<close> of type \<open>'lpu' | 'non-lpu'\<close>, and \<open>formData\<close>, six
  strings.  Three of its keys (\<open>school\<close>, \<open>campus\<close>, \<open>program\<close>) are also columns
  of the table; the form's carry the suffix \<open>_input\<close>.
\<close>

datatype userType = Lpu | Non_Lpu

record formData =
  fullName :: string
  studentNumber :: string
  school_input :: string
  campus_input :: string
  program_input :: string
  thesisTitle :: string

text \<open>
  The object \<open>submissionData\<close>; \<open>now\<close> is \<open>new Date().toISOString()\<close>, the clock
  read at the call.
\<close>

definition submissionData :: "userType \<Rightarrow> formData \<Rightarrow> string \<Rightarrow> submission_fields" where
  "submissionData ut fd now =
     \<lparr>full_name = fullName fd,
      user_type = (if ut = Lpu then ''LPU Student'' else ''Non-LPU Student''),
      student_number = (if ut = Lpu then Some (studentNumber fd) else None),
      school = (if ut = Non_Lpu then Some (school_input fd) else None),
      campus = campus_input fd,
      program = (if ut = Lpu then Some (program_input fd) else None),
      thesis_title = thesisTitle fd,
      submission_date = now\<rparr>"

text \<open>The rows that \<open>handleSubmit\<close> passes to \<open>insert\<close>: the one object, in an array.\<close>

definition handleSubmit_insert :: "userType \<Rightarrow> formData \<Rightarrow> string \<Rightarrow> submission_fields list" where
  "handleSubmit_insert ut fd now = [submissionData ut fd now]"

section \<open>A reference runtime\<close>

text \<open>
  One runtime to run the model on: dates in the ISO format that the form writes
  (\<open>new Date().toISOString()\<close>) and that a date input yields (\<open>YYYY-MM-DD\<close>), a
  time zone at a fixed offset \<open>off\<close> from UTC in milliseconds, the locale \<open>en-US\<close>.
  Its \<open>toLowerCase\<close> folds the letters \<open>A\<close> to \<open>Z\<close> and its \<open>trim\<close> drops space, tab,
  line feed, vertical tab, form feed and carriage return: what the engine does on ASCII
  text, which is all the sample rows hold.  The general theorems below hold for every
  runtime; this one gives them an instance.
\<close>

definition toLowerChar_ascii :: "char \<Rightarrow> char" where
  "toLowerChar_ascii ch =
     (case map_of (zip ''ABCDEFGHIJKLMNOPQRSTUVWXYZ'' ''abcdefghijklmnopqrstuvwxyz'') ch of
        None \<Rightarrow> ch
      | Some l \<Rightarrow> l)"

definition toLowerCase_ascii :: "string \<Rightarrow> string" where
  "toLowerCase_ascii s = map toLowerChar_ascii s"

definition isWhiteSpace_ascii :: "char \<Rightarrow> bool" where
  "isWhiteSpace_ascii ch = (ch \<in> set [CHR '' '', CHR 0x09, CHR 0x0A, CHR 0x0B, CHR 0x0C, CHR 0x0D])"

definition trim_ascii :: "string \<Rightarrow> string" where
  "trim_ascii s = rev (dropWhile isWhiteSpace_ascii (rev (dropWhile isWhiteSpace_ascii s)))"

definition digitValue :: "char \<Rightarrow> int option" where
  "digitValue ch = map_of (zip ''0123456789'' [0, 1, 2, 3, 4, 5, 6, 7, 8, 9]) ch"

fun parseDigits_from :: "int \<Rightarrow> string \<Rightarrow> int option" where
  "parseDigits_from acc [] = Some acc"
| "parseDigits_from acc (ch # cs) =
     (case digitValue ch of None \<Rightarrow> None | Some d \<Rightarrow> parseDigits_from (10 * acc + d) cs)"

definition parseDigits :: "string \<Rightarrow> int option" where
  "parseDigits s = (if s = [] then None else parseDigits_from 0 s)"

text \<open>The day number of a date of the Gregorian calendar, day 0 being 1970-01-01, and back.\<close>

definition isLeapYear :: "int \<Rightarrow> bool" where
  "isLeapYear y = (y mod 4 = 0 \<and> (y mod 100 \<noteq> 0 \<or> y mod 400 = 0))"

definition daysInMonth :: "int \<Rightarrow> int \<Rightarrow> int" where
  "daysInMonth y m =
     (if m = 2 then (if isLeapYear y then 29 else 28)
      else if m \<in> set [4, 6, 9, 11] then 30 else 31)"

definition daysFromCivil :: "int \<Rightarrow> int \<Rightarrow> int \<Rightarrow> int" where
  "daysFromCivil y m d =
     (let y1 = (if m \<le> 2 then y - 1 else y);
          era = y1 div 400;
          yoe = y1 - era * 400;
          doy = (153 * (if m > 2 then m - 3 else m + 9) + 2) div 5 + d - 1;
          doe = yoe * 365 + yoe div 4 - yoe div 100 + doy
      in era * 146097 + doe - 719468)"

definition civilFromDays :: "int \<Rightarrow> int \<times> int \<times> int" where
  "civilFromDays z0 =
     (let z = z0 + 719468;
          era = z div 146097;
          doe = z - era * 146097;
          yoe = (doe - doe div 1460 + doe div 36524 - doe div 146096) div 365;
          doy = doe - (365 * yoe + yoe div 4 - yoe div 100);
          mp = (5 * doy + 2) div 153;
          d = doy - (153 * mp + 2) div 5 + 1;
          m = (if mp < 10 then mp + 3 else mp - 9);
          y = yoe + era * 400 + (if m \<le> 2 then 1 else 0)
      in (y, m, d))"

text \<open>
  The two forms of the date-time string format: the date alone (\<open>YYYY-MM-DD\<close>, read as
  midnight UTC), and the form that \<open>toISOString\<close> writes
  (\<open>YYYY-MM-DDTHH:mm:ss.sssZ\<close>).  The reference parser reads these two forms alone and
  is run on these two alone; an engine reads more.
\<close>

definition parseIsoDay :: "string \<Rightarrow> int option" where
  "parseIsoDay s =
     (if length s = 10 \<and> s ! 4 = CHR ''-'' \<and> s ! 7 = CHR ''-'' then
        (case parseDigits (take 4 s) of
           None \<Rightarrow> None
         | Some y \<Rightarrow>
             (case parseDigits (take 2 (drop 5 s)) of
                None \<Rightarrow> None
              | Some m \<Rightarrow>
                  (case parseDigits (drop 8 s) of
                     None \<Rightarrow> None
                   | Some d \<Rightarrow>
                       if 1 \<le> m \<and> m \<le> 12 \<and> 1 \<le> d \<and> d \<le> daysInMonth y m
                       then Some (daysFromCivil y m d)
                       else None)))
      else None)"

definition parseIsoTime :: "string \<Rightarrow> int option" where
  "parseIsoTime s =
     (if length s = 14 \<and> s ! 0 = CHR ''T'' \<and> s ! 3 = CHR '':'' \<and> s ! 6 = CHR '':'' \<and>
         s ! 9 = CHR ''.'' \<and> s ! 13 = CHR ''Z'' then
        (case parseDigits (take 2 (drop 1 s)) of
           None \<Rightarrow> None
         | Some h \<Rightarrow>
             (case parseDigits (take 2 (drop 4 s)) of
                None \<Rightarrow> None
              | Some mi \<Rightarrow>
                  (case parseDigits (take 2 (drop 7 s)) of
                     None \<Rightarrow> None
                   | Some sec \<Rightarrow>
                       (case parseDigits (take 3 (drop 10 s)) of
                          None \<Rightarrow> None
                        | Some ms \<Rightarrow>
                            if h < 24 \<and> mi < 60 \<and> sec < 60
                            then Some (((h * 60 + mi) * 60 + sec) * 1000 + ms)
                            else None))))
      else None)"

definition isoParse :: "string \<Rightarrow> int option" where
  "isoParse s =
     (case parseIsoDay (take 10 s) of
        None \<Rightarrow> None
      | Some day \<Rightarrow>
          if length s = 10 then Some (day * 86400000)
          else (case parseIsoTime (drop 10 s) of
                  None \<Rightarrow> None
                | Some ms \<Rightarrow> Some (day * 86400000 + ms)))"

text \<open>
  \<open>toLocaleDateString\<close> in the locale \<open>en-US\<close>: month, day and year in decimal,
  separated by slashes, of the local calendar day.
\<close>

fun showNat :: "nat \<Rightarrow> string" where
  "showNat n = (if n < 10 then [''0123456789'' ! n] else showNat (n div 10) @ [''0123456789'' ! (n mod 10)])"

definition enUS_date :: "int \<Rightarrow> int option \<Rightarrow> string" where
  "enUS_date off d =
     (case d of
        None \<Rightarrow> ''Invalid Date''
      | Some t \<Rightarrow>
          (case civilFromDays ((t + off) div 86400000) of
             (y, m, dd) \<Rightarrow> showNat (nat m) @ ''/'' @ showNat (nat dd) @ ''/'' @ showNat (nat y)))"

text \<open>A comparison of strings by their code units, for \<open>localeCompare\<close>.\<close>

fun compareCodeUnits :: "string \<Rightarrow> string \<Rightarrow> int" where
  "compareCodeUnits [] [] = 0"
| "compareCodeUnits [] (y # ys) = - 1"
| "compareCodeUnits (x # xs) [] = 1"
| "compareCodeUnits (x # xs) (y # ys) =
     (if (of_char x :: nat) < of_char y then - 1
      else if (of_char y :: nat) < of_char x then 1
      else compareCodeUnits xs ys)"

definition referenceRuntime :: "int \<Rightarrow> js_runtime" where
  "referenceRuntime off =
     \<lparr>Date_parse = isoParse,
      localDay = (\<lambda>t. (t + off) div 86400000),
      localeCompare = compareCodeUnits,
      toLocaleDateString = enUS_date off,
      toLowerCase = toLowerCase_ascii,
      trim = trim_ascii\<rparr>"

section \<open>Sample rows\<close>

definition alice :: ThesisSubmission where
  "alice =
     \<lparr>full_name = ''Alice'', user_type = ''LPU Student'', student_number = Some ''2021-00123'',
      school = None, campus = ''Main Campus'', program = Some ''Computer Science'',
      thesis_title = ''A Study'', submission_date = ''2024-02-01T00:00:00.000Z'',
      id_field = ''r1''\<rparr>"

definition bob :: ThesisSubmission where
  "bob =
     \<lparr>full_name = ''Bob'', user_type = ''Non-LPU Student'', student_number = None,
      school = Some ''Other University'', campus = ''Main Campus'', program = None,
      thesis_title = ''Other Study'', submission_date = ''2024-01-15T08:30:00.000Z'',
      id_field = ''r2''\<rparr>"





definition west_criteria :: criteria where
  "west_criteria =
     initialCriteria\<lparr>dateFilter := ''2024-02-01'', dateRange_start := ''2024-01-01'',
       dateRange_end := ''2024-03-31''\<rparr>"

definition submitted_feb1 :: ThesisSubmission where
  "submitted_feb1 = alice\<lparr>submission_date := ''2024-02-01T15:00:00.000Z''\<rparr>"

definition submitted_jan31 :: ThesisSubmission where
  "submitted_jan31 = alice\<lparr>submission_date := ''2024-01-31T15:00:00.000Z''\<rparr>"

text \<open>
  Rows whose free-text fields hold the characters that delimit the export: two rows that
  differ in the name and the title, each holding the text \<open>","\<close> (\<open>fieldBreak\<close>),
  and a row whose title holds a line feed.
\<close>

definition fieldBreak :: string where
  "fieldBreak = [CHR 0x22, CHR '','', CHR 0x22]"

definition ann_long_title :: ThesisSubmission where
  "ann_long_title =
     \<lparr>full_name = ''Ann'', user_type = ''LPU Student'', student_number = Some ''1'',
      school = None, campus = ''Main Campus'', program = Some ''Nursing'',
      thesis_title = ''T'' @ fieldBreak @ ''LPU Student'' @ fieldBreak @ ''2'' @ fieldBreak @
        ''Main Campus'' @ fieldBreak @ ''Nursing'' @ fieldBreak @ ''U'',
      submission_date = ''2024-02-01T00:00:00.000Z'', id_field = ''r3''\<rparr>"

definition ann_long_name :: ThesisSubmission where
  "ann_long_name =
     \<lparr>full_name = ''Ann'' @ fieldBreak @ ''LPU Student'' @ fieldBreak @ ''1'' @ fieldBreak @
        ''Main Campus'' @ fieldBreak @ ''Nursing'' @ fieldBreak @ ''T'',
      user_type = ''LPU Student'', student_number = Some ''2'',
      school = None, campus = ''Main Campus'', program = Some ''Nursing'',
      thesis_title = ''U'',
      submission_date = ''2024-02-01T00:00:00.000Z'', id_field = ''r4''\<rparr>"

definition two_line_title :: ThesisSubmission where
  "two_line_title = alice\<lparr>thesis_title := ''A Study'' @ [CHR 0x0A] @ ''in two lines''\<rparr>"

section \<open>The criteria as the specification states them\<close>

text \<open>
  What the engine is measured against, written without the functions of the embedding.
  \<open>caseInsensitiveSubstring\<close>: \<open>term\<close> occurs in \<open>field\<close> as a contiguous block once
  both are in lower case.  \<open>spec_scannedFields\<close>: the fields that the selector names, a
  field that is \<open>null\<close> read as the empty string; the selector \<open>id_school\<close> names the
  student number, or the school where there is no student number; any selector but the
  four single ones names all fields.
\<close>

definition caseInsensitiveSubstring :: "js_runtime \<Rightarrow> string \<Rightarrow> string \<Rightarrow> bool" where
  "caseInsensitiveSubstring E term field = (\<exists>p q. toLowerCase E field = p @ toLowerCase E term @ q)"



section \<open>Properties of the helpers\<close>

lemma includes_str_sublist: "includes_str s t = sublist t s"
  by (induction s) (simp_all add: sublist_Cons_right)

lemma includes_str_iff: "includes_str s t \<longleftrightarrow> (\<exists>p q. s = p @ t @ q)"
  by (simp add: includes_str_sublist sublist_def)



lemma date_ge_iff: "date_ge a b \<longleftrightarrow> (\<exists>x y. a = Some x \<and> b = Some y \<and> y \<le> x)"
  by (auto simp: date_ge_def split: option.splits)

lemma date_le_iff: "date_le a b \<longleftrightarrow> (\<exists>x y. a = Some x \<and> b = Some y \<and> x \<le> y)"
  by (auto simp: date_le_def split: option.splits)

lemma isoParse_samples:
  "isoParse ''2024-01-01'' = Some 1704067200000"
  "isoParse ''2024-01-31'' = Some 1706659200000"
  "isoParse ''2024-02-01'' = Some 1706745600000"
  "isoParse ''2024-02-01T00:00:00.000Z'' = Some 1706745600000"
  "isoParse ''2024-01-15T08:30:00.000Z'' = Some 1705307400000"
  "isoParse ''2024-03-01'' = Some 1709251200000"
  "isoParse ''2024-03-31'' = Some 1711843200000"
  "isoParse ''not-a-date'' = None"
  "isoParse [] = None"
  by code_simp+

lemma filteredAndSortedRecords_Nil: "filteredAndSortedRecords E c [] = []"
  by (simp add: filteredAndSortedRecords_def Array_sort_def)

lemma filteredAndSortedRecords_none:
  "(\<And>r. r \<in> set L \<Longrightarrow> \<not> matchesDate E c r) \<Longrightarrow> filteredAndSortedRecords E c L = []"
proof -
  assume a: "\<And>r. r \<in> set L \<Longrightarrow> \<not> matchesDate E c r"
  have "filter (filterCallback E c) L = []"
    using a by (simp add: filter_empty_conv filterCallback_def)
  then show ?thesis by (simp add: filteredAndSortedRecords_def Array_sort_def)
qed

lemma includes_str_ci:
  "includes_str (toLowerCase E field) (toLowerCase E term) = caseInsensitiveSubstring E term field"
  by (simp add: includes_str_iff caseInsensitiveSubstring_def)

lemma referenceRuntime_strings:
  "toLowerCase (referenceRuntime off) = toLowerCase_ascii"
  "trim (referenceRuntime off) = trim_ascii"
  by (simp_all add: referenceRuntime_def)

lemma search_samples:
  "includes_str (toLowerCase_ascii ''Alice'') (toLowerCase_ascii ''aLiCe'')"
  "\<not> includes_str (toLowerCase_ascii ''Bob'') (toLowerCase_ascii ''aLiCe'')"
  "\<not> includes_str (toLowerCase_ascii ''Other Study'') (toLowerCase_ascii ''aLiCe'')"
  "\<not> includes_str (toLowerCase_ascii ''Other University'') (toLowerCase_ascii ''aLiCe'')"
  "\<not> includes_str (toLowerCase_ascii []) (toLowerCase_ascii ''aLiCe'')"
  "includes_str (toLowerCase_ascii ''Other University'') (toLowerCase_ascii ''UNIV'')"
  "includes_str (toLowerCase_ascii ''Computer Science'') (toLowerCase_ascii ''UTER'')"
  "\<not> includes_str (toLowerCase_ascii []) (toLowerCase_ascii ''UTER'')"
  "includes_str (toLowerCase_ascii ''A Study'') (toLowerCase_ascii ''stu'')"
  "\<not> includes_str (toLowerCase_ascii ''Alice'') (toLowerCase_ascii '' '')"
  by code_simp+

lemma trim_samples:
  "trim_ascii ''aLiCe'' \<noteq> []" "trim_ascii ''UNIV'' \<noteq> []" "trim_ascii ''UTER'' \<noteq> []"
  "trim_ascii ''stu'' \<noteq> []" "trim_ascii '' '' = []" "trim_ascii [] = []"
  "toLowerCase_ascii [] = []" "toLowerCase_ascii ''UTER'' \<noteq> []"
  by code_simp+

lemma sublist_trans_append:
  assumes "sublist x y" and "sublist y z"
  shows "sublist x z"
proof -
  from assms(1) obtain p1 s1 where y: "y = p1 @ x @ s1" by (auto simp: sublist_def)
  from assms(2) obtain p2 s2 where z: "z = p2 @ y @ s2" by (auto simp: sublist_def)
  have "z = (p2 @ p1) @ x @ (s1 @ s2)" by (simp add: y z)
  then show ?thesis unfolding sublist_def by blast
qed

lemma sublist_join: "x \<in> set xs \<Longrightarrow> sublist x (join sep xs)"
proof (induction sep xs rule: join.induct)
  case (1 sep)
  then show ?case by simp
next
  case (2 sep y)
  then show ?case by simp
next
  case (3 sep y z zs)
  show ?case
  proof (cases "x = y")
    case True
    then show ?thesis by (simp add: sublist_append_rightI)
  next
    case False
    with 3 have "sublist x (join sep (z # zs))" by simp
    moreover have "sublist (join sep (z # zs)) ((y @ sep) @ join sep (z # zs))"
      by (rule sublist_append_leftI)
    ultimately show ?thesis using sublist_trans_append by fastforce
  qed
qed

lemma exportRow_explicit:
  "exportRow E r =
     [CHR 0x22] @ full_name r @ [CHR 0x22] @ '','' @
     [CHR 0x22] @ user_type r @ [CHR 0x22] @ '','' @
     [CHR 0x22] @ idSchoolValue r @ [CHR 0x22] @ '','' @
     [CHR 0x22] @ campus r @ [CHR 0x22] @ '','' @
     [CHR 0x22] @ orEmpty (program r) @ [CHR 0x22] @ '','' @
     [CHR 0x22] @ thesis_title r @ [CHR 0x22] @ '','' @
     [CHR 0x22] @ toLocaleDateString E (Date_parse E (submission_date r)) @ [CHR 0x22]"
  by (simp add: exportRow_def exportFields_def quoteField_def)

lemma quoted_in_csv:
  assumes "r \<in> set view" and "field \<in> set (exportFields E r)"
  shows "sublist ([CHR 0x22] @ field @ [CHR 0x22]) (csvContent E view)"
proof -
  have "quoteField field \<in> set (map quoteField (exportFields E r))"
    using assms(2) by simp
  then have "sublist (quoteField field) (exportRow E r)"
    unfolding exportRow_def by (rule sublist_join)
  moreover have "exportRow E r \<in> set (join '','' headers # map (exportRow E) view)"
    using assms(1) by simp
  then have "sublist (exportRow E r) (csvContent E view)"
    unfolding csvContent_def by (rule sublist_join)
  ultimately have "sublist (quoteField field) (csvContent E view)"
    by (rule sublist_trans_append)
  then show ?thesis by (simp add: quoteField_def)
qed






lemma isoParse_west_samples:
  "isoParse ''2024-02-01T15:00:00.000Z'' = Some 1706799600000"
  "isoParse ''2024-01-31T15:00:00.000Z'' = Some 1706713200000"
  "enUS_date (- 18000000) (Some 1706799600000) = ''2/1/2024''"
  "enUS_date (- 18000000) (Some 1706713200000) = ''1/31/2024''"
  "enUS_date (- 18000000) (Some 1706745600000) = ''1/31/2024''"
  by code_simp+

lemma west_view:
  "filteredAndSortedRecords (referenceRuntime (- 18000000)) west_criteria
     [submitted_feb1, submitted_jan31] = [submitted_jan31]"
  by code_simp

section \<open>The filter-sort engine\<close>



text \<open>
  Claim C2.  What the code does when the exact-date filter is set.  The date predicate reads
  the exact date alone: the bounds of the date range have no effect, whatever they are set
  to, neither on the predicate nor on the output of the engine.  But the exact date is not
  compared as the calendar date it names.  \<open>new Date\<close> reads \<open>YYYY-MM-DD\<close> as midnight
  UTC, and \<open>toDateString\<close> renders that instant in local time: five hours west of UTC the
  exact date 2024-02-01 is rendered as 1/31/2024, a row submitted on 2/1/2024 local time
  does not match, a row submitted on 1/31/2024 does, and the view of the two rows is the
  second alone.
\<close>

theorem exact_date_precedence_and_shift:
  assumes "dateFilter c \<noteq> []"
  shows "matchesDate E (c\<lparr>dateRange_start := s, dateRange_end := e\<rparr>) r = matchesDate E c r
       \<and> filteredAndSortedRecords E (c\<lparr>dateRange_start := s, dateRange_end := e\<rparr>) L =
           filteredAndSortedRecords E c L
       \<and> toLocaleDateString (referenceRuntime (- 18000000))
            (Date_parse (referenceRuntime (- 18000000)) (dateFilter west_criteria)) = ''1/31/2024''
       \<and> toLocaleDateString (referenceRuntime (- 18000000))
            (Date_parse (referenceRuntime (- 18000000)) (submission_date submitted_feb1)) = ''2/1/2024''
       \<and> \<not> matchesDate (referenceRuntime (- 18000000)) west_criteria submitted_feb1
       \<and> toLocaleDateString (referenceRuntime (- 18000000))
            (Date_parse (referenceRuntime (- 18000000)) (submission_date submitted_jan31)) = ''1/31/2024''
       \<and> matchesDate (referenceRuntime (- 18000000)) west_criteria submitted_jan31
       \<and> filteredAndSortedRecords (referenceRuntime (- 18000000)) west_criteria
            [submitted_feb1, submitted_jan31] = [submitted_jan31]"
proof -
  let ?c' = "c\<lparr>dateRange_start := s, dateRange_end := e\<rparr>"
  let ?W = "referenceRuntime (- 18000000)"
  have d: "matchesDate E ?c' x = matchesDate E c x" for x
    using assms by (simp add: matchesDate_def)
  have "filterCallback E ?c' = filterCallback E c"
    by (rule ext) (simp add: filterCallback_def d matchesSearch_def matchesUserType_def matchesCampus_def)
  moreover have "sortCallback E ?c' = sortCallback E c"
    by (rule ext, rule ext) (simp add: sortCallback_def)
  ultimately have f: "filteredAndSortedRecords E ?c' L = filteredAndSortedRecords E c L"
    by (simp add: filteredAndSortedRecords_def)
  have w1: "toLocaleDateString ?W (Date_parse ?W (dateFilter west_criteria)) = ''1/31/2024''"
    by (simp add: referenceRuntime_def west_criteria_def isoParse_samples isoParse_west_samples)
  have w2: "toLocaleDateString ?W (Date_parse ?W (submission_date submitted_feb1)) = ''2/1/2024''"
    by (simp add: referenceRuntime_def submitted_feb1_def isoParse_west_samples)
  have w3: "\<not> matchesDate ?W west_criteria submitted_feb1"
    by (simp add: matchesDate_def referenceRuntime_def toDateString_def west_criteria_def
        submitted_feb1_def isoParse_samples isoParse_west_samples)
  have w4: "toLocaleDateString ?W (Date_parse ?W (submission_date submitted_jan31)) = ''1/31/2024''"
    by (simp add: referenceRuntime_def submitted_jan31_def isoParse_west_samples)
  have w5: "matchesDate ?W west_criteria submitted_jan31"
    by (simp add: matchesDate_def referenceRuntime_def toDateString_def west_criteria_def
        submitted_jan31_def isoParse_samples isoParse_west_samples)
  from d f w1 w2 w3 w4 w5 west_view show ?thesis by blast
qed

theorem exact_date_precedence_and_shift_witness:
  "dateFilter (initialCriteria\<lparr>dateFilter := ''2024-02-01''\<rparr>) \<noteq> []
   \<and> matchesDate (referenceRuntime 28800000)
        (initialCriteria\<lparr>dateFilter := ''2024-02-01'', dateRange_start := ''2024-03-01'', dateRange_end := ''2024-03-31''\<rparr>) alice
   \<and> \<not> matchesDate (referenceRuntime 28800000)
        (initialCriteria\<lparr>dateFilter := ''2024-02-01'', dateRange_start := ''2024-01-01'', dateRange_end := ''2024-03-31''\<rparr>) bob"
proof -
  let ?c = "initialCriteria\<lparr>dateFilter := ''2024-02-01''\<rparr>"
  let ?E = "referenceRuntime 28800000"
  have h: "dateFilter ?c \<noteq> []" by simp
  have a: "matchesDate ?E ?c alice"
    by (simp add: matchesDate_def referenceRuntime_def toDateString_def alice_def isoParse_samples)
  have b: "\<not> matchesDate ?E ?c bob"
    by (simp add: matchesDate_def referenceRuntime_def toDateString_def bob_def isoParse_samples)
  have "matchesDate ?E (?c\<lparr>dateRange_start := ''2024-03-01'', dateRange_end := ''2024-03-31''\<rparr>) alice = matchesDate ?E ?c alice"
    using exact_date_precedence_and_shift [OF h, where E = ?E and s = "''2024-03-01''" and e = "''2024-03-31''" and r = alice] by blast
  moreover have "matchesDate ?E (?c\<lparr>dateRange_start := ''2024-01-01'', dateRange_end := ''2024-03-31''\<rparr>) bob = matchesDate ?E ?c bob"
    using exact_date_precedence_and_shift [OF h, where E = ?E and s = "''2024-01-01''" and e = "''2024-03-31''" and r = bob] by blast
  ultimately show ?thesis using a b h by (simp add: initialCriteria_def)
qed

text \<open>
  Claim C3.  When the exact-date filter is not set and a bound of the date range is, the
  date predicate holds exactly when the submission time is not before the start (if the
  start is set) and not after the end (if the end is set); a bound that is not set
  constrains nothing.  With the range from 2024-01-01 to 2024-01-31 a record submitted on
  2024-02-01 is excluded, in every time zone of the reference runtime.
\<close>

theorem date_range_bounds:
  assumes "dateFilter c = []" and "dateRange_start c \<noteq> [] \<or> dateRange_end c \<noteq> []"
  shows "(matchesDate E c r \<longleftrightarrow>
            (dateRange_start c \<noteq> [] \<longrightarrow>
               (\<exists>t s. Date_parse E (submission_date r) = Some t \<and> Date_parse E (dateRange_start c) = Some s \<and> s \<le> t)) \<and>
            (dateRange_end c \<noteq> [] \<longrightarrow>
               (\<exists>t e. Date_parse E (submission_date r) = Some t \<and> Date_parse E (dateRange_end c) = Some e \<and> t \<le> e)))
       \<and> \<not> matchesDate (referenceRuntime off)
            (c0\<lparr>dateFilter := [], dateRange_start := ''2024-01-01'', dateRange_end := ''2024-01-31''\<rparr>)
            (r0\<lparr>submission_date := ''2024-02-01''\<rparr>)
       \<and> \<not> matchesDate (referenceRuntime off)
            (c0\<lparr>dateFilter := [], dateRange_start := ''2024-01-01'', dateRange_end := ''2024-01-31''\<rparr>)
            (r0\<lparr>submission_date := ''2024-02-01T00:00:00.000Z''\<rparr>)"
proof -
  have a: "matchesDate E c r \<longleftrightarrow>
            (dateRange_start c \<noteq> [] \<longrightarrow>
               (\<exists>t s. Date_parse E (submission_date r) = Some t \<and> Date_parse E (dateRange_start c) = Some s \<and> s \<le> t)) \<and>
            (dateRange_end c \<noteq> [] \<longrightarrow>
               (\<exists>t e. Date_parse E (submission_date r) = Some t \<and> Date_parse E (dateRange_end c) = Some e \<and> t \<le> e))"
    using assms by (auto simp: matchesDate_def Let_def date_ge_iff date_le_iff)
  have b: "\<not> matchesDate (referenceRuntime off)
            (c0\<lparr>dateFilter := [], dateRange_start := ''2024-01-01'', dateRange_end := ''2024-01-31''\<rparr>)
            (r0\<lparr>submission_date := ''2024-02-01''\<rparr>)"
    by (simp add: matchesDate_def referenceRuntime_def isoParse_samples date_ge_def date_le_def)
  have d: "\<not> matchesDate (referenceRuntime off)
            (c0\<lparr>dateFilter := [], dateRange_start := ''2024-01-01'', dateRange_end := ''2024-01-31''\<rparr>)
            (r0\<lparr>submission_date := ''2024-02-01T00:00:00.000Z''\<rparr>)"
    by (simp add: matchesDate_def referenceRuntime_def isoParse_samples date_ge_def date_le_def)
  from a b d show ?thesis by blast
qed

theorem date_range_bounds_witness:
  "dateFilter (initialCriteria\<lparr>dateRange_start := ''2024-01-01'', dateRange_end := ''2024-01-31''\<rparr>) = []
   \<and> dateRange_start (initialCriteria\<lparr>dateRange_start := ''2024-01-01'', dateRange_end := ''2024-01-31''\<rparr>) \<noteq> []
   \<and> dateRange_end (initialCriteria\<lparr>dateRange_start := ''2024-01-01'', dateRange_end := ''2024-01-31''\<rparr>) \<noteq> []
   \<and> matchesDate (referenceRuntime 0)
        (initialCriteria\<lparr>dateRange_start := ''2024-01-01'', dateRange_end := ''2024-01-31''\<rparr>) bob
   \<and> \<not> matchesDate (referenceRuntime 0)
        (initialCriteria\<lparr>dateRange_start := ''2024-01-01'', dateRange_end := ''2024-01-31''\<rparr>) alice"
proof -
  let ?c = "initialCriteria\<lparr>dateRange_start := ''2024-01-01'', dateRange_end := ''2024-01-31''\<rparr>"
  let ?E = "referenceRuntime 0"
  have h1: "dateFilter ?c = []" by (simp add: initialCriteria_def)
  have h2: "dateRange_start ?c \<noteq> [] \<or> dateRange_end ?c \<noteq> []" by simp
  have p: "Date_parse ?E (submission_date alice) = Some 1706745600000"
    "Date_parse ?E (submission_date bob) = Some 1705307400000"
    "Date_parse ?E (dateRange_start ?c) = Some 1704067200000"
    "Date_parse ?E (dateRange_end ?c) = Some 1706659200000"
    by (simp_all add: referenceRuntime_def alice_def bob_def isoParse_samples)
  have "matchesDate ?E ?c bob"
    using date_range_bounds [OF h1 h2, of ?E bob] p by simp
  moreover have "\<not> matchesDate ?E ?c alice"
    using date_range_bounds [OF h1 h2, of ?E alice] p by simp
  ultimately show ?thesis using h1 by simp
qed

section \<open>The search predicate\<close>

text \<open>
  Claim C4, as stated, fails for a search term of white space only.  The source tests
  \<open>searchTerm.trim()\<close>: the term of one space is not empty, yet the search is skipped
  and every record matches, also the record \<open>alice\<close>, whose name holds no space.
\<close>

theorem search_whitespace_term_counterexample:
  "searchTerm (initialCriteria\<lparr>searchTerm := '' '', searchField := ''name''\<rparr>) \<noteq> []
   \<and> searchField (initialCriteria\<lparr>searchTerm := '' '', searchField := ''name''\<rparr>) = ''name''
   \<and> matchesSearch (referenceRuntime 0) (initialCriteria\<lparr>searchTerm := '' '', searchField := ''name''\<rparr>) alice
   \<and> \<not> caseInsensitiveSubstring (referenceRuntime 0)
         (searchTerm (initialCriteria\<lparr>searchTerm := '' '', searchField := ''name''\<rparr>)) (full_name alice)"
proof -
  have "\<not> caseInsensitiveSubstring (referenceRuntime 0) '' '' ''Alice''"
    using search_samples(10) by (simp add: includes_str_ci [symmetric] referenceRuntime_strings)
  moreover have "matchesSearch (referenceRuntime 0) (initialCriteria\<lparr>searchTerm := '' '', searchField := ''name''\<rparr>) alice"
    by (simp add: matchesSearch_def referenceRuntime_strings trim_samples)
  ultimately show ?thesis by (simp add: alice_def)
qed

text \<open>
  Claim C4, amended.  In every runtime, a search term that is empty after \<open>trim\<close>
  applies no search: every record matches.  For a term that is not empty after \<open>trim\<close>:
  under a selector other than the four single fields (\<open>all\<close> is one) the search predicate
  holds exactly when the term is a case-insensitive substring of the name, of the title, of
  the student number, of the school or of the program; under each single-field selector it
  is the case-insensitive substring match against that field (\<open>id_school\<close>: the student
  number if there is one and it is not empty, else the school).  A field that is \<open>null\<close>
  is read as the empty string, of which the term is no substring as long as lower case
  keeps the empty string empty and the term not empty.
\<close>

theorem search_predicate_by_selector:
  "(trim E (searchTerm c) = [] \<longrightarrow> matchesSearch E c r)
   \<and> (trim E (searchTerm c) \<noteq> [] \<longrightarrow>
        (searchField c \<notin> {''name'', ''id_school'', ''program'', ''thesis_title''} \<longrightarrow>
           (matchesSearch E c r \<longleftrightarrow>
              caseInsensitiveSubstring E (searchTerm c) (full_name r) \<or>
              caseInsensitiveSubstring E (searchTerm c) (thesis_title r) \<or>
              caseInsensitiveSubstring E (searchTerm c) (case student_number r of None \<Rightarrow> [] | Some s \<Rightarrow> s) \<or>
              caseInsensitiveSubstring E (searchTerm c) (case school r of None \<Rightarrow> [] | Some s \<Rightarrow> s) \<or>
              caseInsensitiveSubstring E (searchTerm c) (case program r of None \<Rightarrow> [] | Some s \<Rightarrow> s)))
        \<and> (searchField c = ''name'' \<longrightarrow>
           (matchesSearch E c r \<longleftrightarrow> caseInsensitiveSubstring E (searchTerm c) (full_name r)))
        \<and> (searchField c = ''id_school'' \<longrightarrow>
           (matchesSearch E c r \<longleftrightarrow>
              caseInsensitiveSubstring E (searchTerm c)
                (case student_number r of
                   None \<Rightarrow> (case school r of None \<Rightarrow> [] | Some x \<Rightarrow> x)
                 | Some s \<Rightarrow> if s = [] then (case school r of None \<Rightarrow> [] | Some x \<Rightarrow> x) else s)))
        \<and> (searchField c = ''program'' \<longrightarrow>
           (matchesSearch E c r \<longleftrightarrow>
              caseInsensitiveSubstring E (searchTerm c) (case program r of None \<Rightarrow> [] | Some s \<Rightarrow> s)))
        \<and> (searchField c = ''thesis_title'' \<longrightarrow>
           (matchesSearch E c r \<longleftrightarrow> caseInsensitiveSubstring E (searchTerm c) (thesis_title r))))
   \<and> (toLowerCase E [] = [] \<and> toLowerCase E (searchTerm c) \<noteq> [] \<longrightarrow>
        \<not> caseInsensitiveSubstring E (searchTerm c) [])"
proof -
  have blank: "trim E (searchTerm c) = [] \<longrightarrow> matchesSearch E c r"
    by (simp add: matchesSearch_def)
  have a: "searchField c \<notin> {''name'', ''id_school'', ''program'', ''thesis_title''} \<longrightarrow>
           (matchesSearch E c r \<longleftrightarrow>
              caseInsensitiveSubstring E (searchTerm c) (full_name r) \<or>
              caseInsensitiveSubstring E (searchTerm c) (thesis_title r) \<or>
              caseInsensitiveSubstring E (searchTerm c) (case student_number r of None \<Rightarrow> [] | Some s \<Rightarrow> s) \<or>
              caseInsensitiveSubstring E (searchTerm c) (case school r of None \<Rightarrow> [] | Some s \<Rightarrow> s) \<or>
              caseInsensitiveSubstring E (searchTerm c) (case program r of None \<Rightarrow> [] | Some s \<Rightarrow> s))"
    if "trim E (searchTerm c) \<noteq> []"
    using that by (simp add: matchesSearch_def includes_str_ci orEmpty_def)
  have b: "searchField c = ''name'' \<longrightarrow>
           (matchesSearch E c r \<longleftrightarrow> caseInsensitiveSubstring E (searchTerm c) (full_name r))"
    if "trim E (searchTerm c) \<noteq> []"
    using that by (simp add: matchesSearch_def includes_str_ci)
  have d: "searchField c = ''id_school'' \<longrightarrow>
           (matchesSearch E c r \<longleftrightarrow>
              caseInsensitiveSubstring E (searchTerm c)
                (case student_number r of
                   None \<Rightarrow> (case school r of None \<Rightarrow> [] | Some x \<Rightarrow> x)
                 | Some s \<Rightarrow> if s = [] then (case school r of None \<Rightarrow> [] | Some x \<Rightarrow> x) else s))"
    if "trim E (searchTerm c) \<noteq> []"
    using that by (simp add: matchesSearch_def includes_str_ci idSchoolValue_def orEmpty_def split: option.splits)
  have e: "searchField c = ''program'' \<longrightarrow>
           (matchesSearch E c r \<longleftrightarrow>
              caseInsensitiveSubstring E (searchTerm c) (case program r of None \<Rightarrow> [] | Some s \<Rightarrow> s))"
    if "trim E (searchTerm c) \<noteq> []"
    using that by (simp add: matchesSearch_def includes_str_ci orEmpty_def)
  have f: "searchField c = ''thesis_title'' \<longrightarrow>
           (matchesSearch E c r \<longleftrightarrow> caseInsensitiveSubstring E (searchTerm c) (thesis_title r))"
    if "trim E (searchTerm c) \<noteq> []"
    using that by (simp add: matchesSearch_def includes_str_ci)
  have n: "toLowerCase E [] = [] \<and> toLowerCase E (searchTerm c) \<noteq> [] \<longrightarrow>
        \<not> caseInsensitiveSubstring E (searchTerm c) []"
    by (simp add: caseInsensitiveSubstring_def)
  from blank a b d e f n show ?thesis by blast
qed

theorem search_predicate_by_selector_witness:
  "trim (referenceRuntime 0) '' '' = []
   \<and> matchesSearch (referenceRuntime 0) (initialCriteria\<lparr>searchTerm := '' '', searchField := ''name''\<rparr>) bob
   \<and> trim (referenceRuntime 0) ''aLiCe'' \<noteq> []
   \<and> matchesSearch (referenceRuntime 0) (initialCriteria\<lparr>searchTerm := ''aLiCe''\<rparr>) alice
   \<and> \<not> matchesSearch (referenceRuntime 0) (initialCriteria\<lparr>searchTerm := ''aLiCe''\<rparr>) bob
   \<and> matchesSearch (referenceRuntime 0) (initialCriteria\<lparr>searchTerm := ''aLiCe'', searchField := ''name''\<rparr>) alice
   \<and> matchesSearch (referenceRuntime 0) (initialCriteria\<lparr>searchTerm := ''UNIV'', searchField := ''id_school''\<rparr>) bob
   \<and> matchesSearch (referenceRuntime 0) (initialCriteria\<lparr>searchTerm := ''UTER'', searchField := ''program''\<rparr>) alice
   \<and> \<not> matchesSearch (referenceRuntime 0) (initialCriteria\<lparr>searchTerm := ''UTER'', searchField := ''program''\<rparr>) bob
   \<and> matchesSearch (referenceRuntime 0) (initialCriteria\<lparr>searchTerm := ''stu'', searchField := ''thesis_title''\<rparr>) alice
   \<and> toLowerCase (referenceRuntime 0) [] = [] \<and> toLowerCase (referenceRuntime 0) ''UTER'' \<noteq> []
   \<and> \<not> caseInsensitiveSubstring (referenceRuntime 0) ''UTER'' []"
proof -
  let ?E = "referenceRuntime 0"
  note ci = search_samples [folded referenceRuntime_strings [of 0], unfolded includes_str_ci]
  note tr = trim_samples [folded referenceRuntime_strings [of 0]]
  let ?blank = "initialCriteria\<lparr>searchTerm := '' '', searchField := ''name''\<rparr>"
  let ?all = "initialCriteria\<lparr>searchTerm := ''aLiCe''\<rparr>"
  let ?name = "initialCriteria\<lparr>searchTerm := ''aLiCe'', searchField := ''name''\<rparr>"
  let ?ids = "initialCriteria\<lparr>searchTerm := ''UNIV'', searchField := ''id_school''\<rparr>"
  let ?prog = "initialCriteria\<lparr>searchTerm := ''UTER'', searchField := ''program''\<rparr>"
  let ?title = "initialCriteria\<lparr>searchTerm := ''stu'', searchField := ''thesis_title''\<rparr>"
  have f: "searchField ?all \<notin> {''name'', ''id_school'', ''program'', ''thesis_title''}"
    by (simp add: initialCriteria_def)
  have 0: "matchesSearch ?E ?blank bob"
    using search_predicate_by_selector [of ?E ?blank bob] tr by simp
  have 1: "matchesSearch ?E ?all alice"
    using search_predicate_by_selector [of ?E ?all alice] f tr ci by (simp add: alice_def)
  have 2: "\<not> matchesSearch ?E ?all bob"
    using search_predicate_by_selector [of ?E ?all bob] f tr ci by (simp add: bob_def)
  have 3: "matchesSearch ?E ?name alice"
    using search_predicate_by_selector [of ?E ?name alice] tr ci by (simp add: alice_def)
  have 4: "matchesSearch ?E ?ids bob"
    using search_predicate_by_selector [of ?E ?ids bob] tr ci by (simp add: bob_def)
  have 5: "matchesSearch ?E ?prog alice"
    using search_predicate_by_selector [of ?E ?prog alice] tr ci by (simp add: alice_def)
  have 6: "\<not> matchesSearch ?E ?prog bob"
    using search_predicate_by_selector [of ?E ?prog bob] tr ci by (simp add: bob_def)
  have 7: "matchesSearch ?E ?title alice"
    using search_predicate_by_selector [of ?E ?title alice] tr ci by (simp add: alice_def)
  have 8: "\<not> caseInsensitiveSubstring ?E ''UTER'' []"
    using search_predicate_by_selector [of ?E ?prog bob] tr by simp
  from 0 1 2 3 4 5 6 7 8 tr show ?thesis by simp
qed

section \<open>The input array\<close>

text \<open>
  Claim C5.  Running the engine on the heap leaves the array \<open>records\<close> as it was and
  returns a new array: the result is a reference that the heap did not hold before, so it
  is not the reference of the input; every array of the old heap, the input among them, is
  unchanged; and the new array holds the output of the engine.  The rows themselves are
  values: neither callback assigns to a field of a row.
\<close>

theorem filteredAndSortedRecords_ref_frame:
  assumes "recs < length h"
  shows "\<exists>view h'. filteredAndSortedRecords_ref E c recs h = Some (view, h')
           \<and> view \<noteq> recs \<and> view = length h \<and> length h' = Suc (length h)
           \<and> take (length h) h' = h
           \<and> h' ! recs = h ! recs
           \<and> h' ! view = filteredAndSortedRecords E c (h ! recs)"
proof -
  let ?h1 = "h @ [filter (filterCallback E c) (h ! recs)]"
  let ?h2 = "?h1[length h := Array_sort (sortCallback E c) (?h1 ! length h)]"
  have r: "filteredAndSortedRecords_ref E c recs h = Some (length h, ?h2)"
    using assms by (simp add: filteredAndSortedRecords_ref_def Array_filter_ref_def Array_sort_ref_def)
  have ne: "length h \<noteq> recs" using assms by simp
  have len: "length ?h2 = Suc (length h)" by simp
  have old: "take (length h) ?h2 = h" by simp
  have same: "?h2 ! recs = h ! recs"
    using assms by (simp add: nth_append)
  have new: "?h2 ! length h = filteredAndSortedRecords E c (h ! recs)"
    by (simp add: filteredAndSortedRecords_def)
  from r ne len old same new show ?thesis by blast
qed

theorem filteredAndSortedRecords_ref_frame_witness:
  "(0::nat) < length [[bob, alice]]
   \<and> filteredAndSortedRecords_ref (referenceRuntime 0) initialCriteria 0 [[bob, alice]] =
       Some (1, [[bob, alice], [alice, bob]])"
proof -
  have h: "(0::nat) < length [[bob, alice]]" by simp
  have v: "filteredAndSortedRecords (referenceRuntime 0) initialCriteria [bob, alice] = [alice, bob]"
    by code_simp
  from filteredAndSortedRecords_ref_frame [OF h, of "referenceRuntime 0" initialCriteria]
  obtain view h' where a: "filteredAndSortedRecords_ref (referenceRuntime 0) initialCriteria 0 [[bob, alice]] = Some (view, h')"
    and b: "view = length [[bob, alice]]" and c: "length h' = Suc (length [[bob, alice]])"
    and d: "take (length [[bob, alice]]) h' = [[bob, alice]]"
    and e: "h' ! view = filteredAndSortedRecords (referenceRuntime 0) initialCriteria ([[bob, alice]] ! 0)"
    by blast
  from b have view: "view = 1" by simp
  from c obtain x y where h': "h' = [x, y]"
    by (cases h'; cases "tl h'"; cases "tl (tl h')") auto
  from d h' have "x = [bob, alice]" by simp
  moreover from e view h' v have "y = [alice, bob]" by simp
  ultimately show ?thesis using a view h' h by simp
qed

section \<open>The export\<close>

text \<open>
  Claim C6.  On the empty list of records the engine gives the empty view under every
  setting of the criteria, and the export of that view is the header row alone: the text
  \<open>Name,Type,ID/School,Campus,Program,Thesis Title,Date\<close> with no line feed in it.
\<close>

theorem export_empty_view_header_only:
  "filteredAndSortedRecords E c [] = []
   \<and> handleExport E c [] = (''thesis_submissions.csv'', ''Name,Type,ID/School,Campus,Program,Thesis Title,Date'')
   \<and> csvContent E (filteredAndSortedRecords E c []) = join '','' headers
   \<and> CHR 0x0A \<notin> set (snd (handleExport E c []))"
  by (simp add: filteredAndSortedRecords_Nil handleExport_def csvContent_def headers_def)

theorem export_empty_view_header_only_witness:
  "handleExport (referenceRuntime 0) (initialCriteria\<lparr>searchTerm := ''alice'', dateFilter := ''2024-02-01''\<rparr>) []
     = (''thesis_submissions.csv'', ''Name,Type,ID/School,Campus,Program,Thesis Title,Date'')"
  using export_empty_view_header_only [of "referenceRuntime 0" "initialCriteria\<lparr>searchTerm := ''alice'', dateFilter := ''2024-02-01''\<rparr>"]
  by simp

section \<open>Malformed dates\<close>

text \<open>
  Claim C7, as stated, fails for the exact-date filter on a record whose own submission
  date does not parse: \<open>toDateString\<close> is \<open>Invalid Date\<close> on both sides, the two texts
  are equal, and the record matches.
\<close>

theorem malformed_exact_date_counterexample:
  "dateFilter (initialCriteria\<lparr>dateFilter := ''not-a-date''\<rparr>) \<noteq> []
   \<and> Date_parse (referenceRuntime 0) (dateFilter (initialCriteria\<lparr>dateFilter := ''not-a-date''\<rparr>)) = None
   \<and> matchesDate (referenceRuntime 0) (initialCriteria\<lparr>dateFilter := ''not-a-date''\<rparr>) (alice\<lparr>submission_date := []\<rparr>)
   \<and> filteredAndSortedRecords (referenceRuntime 0) (initialCriteria\<lparr>dateFilter := ''not-a-date''\<rparr>)
        [alice\<lparr>submission_date := []\<rparr>] = [alice\<lparr>submission_date := []\<rparr>]"
  by (simp add: matchesDate_def referenceRuntime_def isoParse_samples toDateString_def
      filteredAndSortedRecords_def filterCallback_def matchesSearch_def matchesUserType_def
      matchesCampus_def initialCriteria_def trim_ascii_def Array_sort_def)

text \<open>
  Claim C7, amended.  The filter has no path that throws.  A malformed (set but
  unparseable) exact date matches no record whose submission date parses, so on a list of
  such records the view is empty.  With no exact date set, a malformed bound of the date
  range matches no record at all, and the view is empty.
\<close>

theorem malformed_date_filter_fails_closed:
  "(dateFilter c \<noteq> [] \<and> Date_parse E (dateFilter c) = None \<and> Date_parse E (submission_date r) \<noteq> None
      \<longrightarrow> \<not> matchesDate E c r)
   \<and> (dateFilter c = [] \<and>
        ((dateRange_start c \<noteq> [] \<and> Date_parse E (dateRange_start c) = None) \<or>
         (dateRange_end c \<noteq> [] \<and> Date_parse E (dateRange_end c) = None))
      \<longrightarrow> \<not> matchesDate E c r \<and> filteredAndSortedRecords E c L = [])
   \<and> (dateFilter c \<noteq> [] \<and> Date_parse E (dateFilter c) = None \<and>
        (\<forall>x \<in> set L. Date_parse E (submission_date x) \<noteq> None)
      \<longrightarrow> filteredAndSortedRecords E c L = [])"
proof -
  have a: "\<not> matchesDate E c x"
    if "dateFilter c \<noteq> []" "Date_parse E (dateFilter c) = None" "Date_parse E (submission_date x) \<noteq> None" for x
    using that by (auto simp: matchesDate_def toDateString_def)
  have b: "\<not> matchesDate E c x"
    if "dateFilter c = []" "(dateRange_start c \<noteq> [] \<and> Date_parse E (dateRange_start c) = None) \<or>
         (dateRange_end c \<noteq> [] \<and> Date_parse E (dateRange_end c) = None)" for x
    using that by (auto simp: matchesDate_def date_ge_def date_le_def split: option.splits)
  have b': "filteredAndSortedRecords E c L = []"
    if "dateFilter c = []" "(dateRange_start c \<noteq> [] \<and> Date_parse E (dateRange_start c) = None) \<or>
         (dateRange_end c \<noteq> [] \<and> Date_parse E (dateRange_end c) = None)"
    using b [OF that] by (rule filteredAndSortedRecords_none)
  have a': "filteredAndSortedRecords E c L = []"
    if "dateFilter c \<noteq> []" "Date_parse E (dateFilter c) = None" "\<forall>x \<in> set L. Date_parse E (submission_date x) \<noteq> None"
    using a that by (intro filteredAndSortedRecords_none) blast
  from a b a' b' show ?thesis by blast
qed

theorem malformed_date_filter_fails_closed_witness:
  "\<not> matchesDate (referenceRuntime 0) (initialCriteria\<lparr>dateFilter := ''not-a-date''\<rparr>) alice
   \<and> filteredAndSortedRecords (referenceRuntime 0) (initialCriteria\<lparr>dateFilter := ''not-a-date''\<rparr>) [alice, bob] = []
   \<and> \<not> matchesDate (referenceRuntime 0) (initialCriteria\<lparr>dateRange_start := ''not-a-date''\<rparr>) alice
   \<and> filteredAndSortedRecords (referenceRuntime 0) (initialCriteria\<lparr>dateRange_start := ''not-a-date''\<rparr>) [alice, bob] = []
   \<and> \<not> matchesDate (referenceRuntime 0) (initialCriteria\<lparr>dateRange_end := ''not-a-date''\<rparr>) (alice\<lparr>submission_date := []\<rparr>)"
proof -
  let ?E = "referenceRuntime 0"
  let ?c1 = "initialCriteria\<lparr>dateFilter := ''not-a-date''\<rparr>"
  let ?c2 = "initialCriteria\<lparr>dateRange_start := ''not-a-date''\<rparr>"
  let ?c3 = "initialCriteria\<lparr>dateRange_end := ''not-a-date''\<rparr>"
  have bad: "Date_parse ?E ''not-a-date'' = None"
    by (simp add: referenceRuntime_def isoParse_samples)
  have ok: "Date_parse ?E (submission_date alice) \<noteq> None" "Date_parse ?E (submission_date bob) \<noteq> None"
    by (simp_all add: referenceRuntime_def alice_def bob_def isoParse_samples)
  have h1: "dateFilter ?c1 \<noteq> [] \<and> Date_parse ?E (dateFilter ?c1) = None" using bad by simp
  have h2: "dateFilter ?c2 = [] \<and> dateRange_start ?c2 \<noteq> [] \<and> Date_parse ?E (dateRange_start ?c2) = None"
    using bad by (simp add: initialCriteria_def)
  have h3: "dateFilter ?c3 = [] \<and> dateRange_end ?c3 \<noteq> [] \<and> Date_parse ?E (dateRange_end ?c3) = None"
    using bad by (simp add: initialCriteria_def)
  have all: "\<forall>x \<in> set [alice, bob]. Date_parse ?E (submission_date x) \<noteq> None" using ok by simp
  have "\<not> matchesDate ?E ?c1 alice"
    using malformed_date_filter_fails_closed [of ?c1 ?E alice "[alice, bob]"] h1 ok by blast
  moreover have "filteredAndSortedRecords ?E ?c1 [alice, bob] = []"
    using malformed_date_filter_fails_closed [of ?c1 ?E alice "[alice, bob]"] h1 all by blast
  moreover have "\<not> matchesDate ?E ?c2 alice \<and> filteredAndSortedRecords ?E ?c2 [alice, bob] = []"
    using malformed_date_filter_fails_closed [of ?c2 ?E alice "[alice, bob]"] h2 by blast
  moreover have "\<not> matchesDate ?E ?c3 (alice\<lparr>submission_date := []\<rparr>)"
    using malformed_date_filter_fails_closed [of ?c3 ?E "alice\<lparr>submission_date := []\<rparr>" "[]"] h3 by blast
  ultimately show ?thesis by blast
qed

section \<open>Deleting as a Reader\<close>

text \<open>
  Claim C8.  \<open>handleDelete\<close> called with the role \<open>Reader\<close> shows the access
  restricted toast and returns: no call is made on the store, no confirmation is asked,
  and the list of records is unchanged, whatever the id and whatever the store and the user
  would have answered.
\<close>

theorem handleDelete_reader_rejected:
  "handleDelete (Some Reader) w ident v = v\<lparr>toasts := toasts v @ [Access_Restricted]\<rparr>
   \<and> store_calls (handleDelete (Some Reader) w ident v) = store_calls v
   \<and> records (handleDelete (Some Reader) w ident v) = records v
   \<and> confirms (handleDelete (Some Reader) w ident v) = confirms v
   \<and> loading (handleDelete (Some Reader) w ident v) = loading v
   \<and> toasts (handleDelete (Some Reader) w ident v) = toasts v @ [Access_Restricted]"
  by (simp add: handleDelete_def)

theorem handleDelete_reader_rejected_witness:
  "store_calls (handleDelete (Some Reader)
      \<lparr>confirm_answer = True, delete_error = False, select_answer = Select_Data (Some [bob])\<rparr> ''r1''
      \<lparr>records = [alice, bob], loading = False, toasts = [], confirms = 0, store_calls = [Select_All]\<rparr>)
     = [Select_All]
   \<and> records (handleDelete (Some Reader)
      \<lparr>confirm_answer = True, delete_error = False, select_answer = Select_Data (Some [bob])\<rparr> ''r1''
      \<lparr>records = [alice, bob], loading = False, toasts = [], confirms = 0, store_calls = [Select_All]\<rparr>)
     = [alice, bob]
   \<and> toasts (handleDelete (Some Reader)
      \<lparr>confirm_answer = True, delete_error = False, select_answer = Select_Data (Some [bob])\<rparr> ''r1''
      \<lparr>records = [alice, bob], loading = False, toasts = [], confirms = 0, store_calls = [Select_All]\<rparr>)
     = [Access_Restricted]"
  using handleDelete_reader_rejected [of "\<lparr>confirm_answer = True, delete_error = False, select_answer = Select_Data (Some [bob])\<rparr>" "''r1''"
     "\<lparr>records = [alice, bob], loading = False, toasts = [], confirms = 0, store_calls = [Select_All]\<rparr>"]
  by simp

section \<open>The row built by the public form\<close>

text \<open>
  Claim C9.  In the row that \<open>handleSubmit\<close> inserts, exactly one of
  \<open>student_number\<close> and \<open>school\<close> is not \<open>null\<close>: for an LPU student the student
  number is set and the school is \<open>null\<close>, for a non-LPU student the school is set and
  the student number is \<open>null\<close>; and \<open>program\<close> is not \<open>null\<close> exactly for an LPU
  student.
\<close>

theorem submissionData_category_invariant:
  "(\<forall>row \<in> set (handleSubmit_insert ut fd now).
      ((student_number row \<noteq> None) \<noteq> (school row \<noteq> None))
      \<and> (ut = Lpu \<longrightarrow> user_type row = ''LPU Student'' \<and> student_number row = Some (studentNumber fd) \<and> school row = None)
      \<and> (ut = Non_Lpu \<longrightarrow> user_type row = ''Non-LPU Student'' \<and> school row = Some (school_input fd) \<and> student_number row = None)
      \<and> (program row \<noteq> None \<longleftrightarrow> ut = Lpu)
      \<and> (program row \<noteq> None \<longleftrightarrow> user_type row = ''LPU Student''))
   \<and> handleSubmit_insert ut fd now \<noteq> []"
  by (cases ut) (simp_all add: handleSubmit_insert_def submissionData_def)

theorem submissionData_category_invariant_witness:
  "handleSubmit_insert Lpu
     \<lparr>fullName = ''Alice'', studentNumber = ''2021-00123'', school_input = ''ignored'',
      campus_input = ''Main Campus'', program_input = ''Computer Science'', thesisTitle = ''A Study''\<rparr>
     ''2024-02-01T00:00:00.000Z''
   = [\<lparr>full_name = ''Alice'', user_type = ''LPU Student'', student_number = Some ''2021-00123'',
       school = None, campus = ''Main Campus'', program = Some ''Computer Science'',
       thesis_title = ''A Study'', submission_date = ''2024-02-01T00:00:00.000Z''\<rparr>]
   \<and> handleSubmit_insert Non_Lpu
     \<lparr>fullName = ''Bob'', studentNumber = ''ignored'', school_input = ''Other University'',
      campus_input = ''Main Campus'', program_input = ''ignored'', thesisTitle = ''Other Study''\<rparr>
     ''2024-01-15T08:30:00.000Z''
   = [\<lparr>full_name = ''Bob'', user_type = ''Non-LPU Student'', student_number = None,
       school = Some ''Other University'', campus = ''Main Campus'', program = None,
       thesis_title = ''Other Study'', submission_date = ''2024-01-15T08:30:00.000Z''\<rparr>]"
  using
    submissionData_category_invariant [of Lpu
      "\<lparr>fullName = ''Alice'', studentNumber = ''2021-00123'', school_input = ''ignored'',
        campus_input = ''Main Campus'', program_input = ''Computer Science'', thesisTitle = ''A Study''\<rparr>"
      "''2024-02-01T00:00:00.000Z''"]
    submissionData_category_invariant [of Non_Lpu
      "\<lparr>fullName = ''Bob'', studentNumber = ''ignored'', school_input = ''Other University'',
        campus_input = ''Main Campus'', program_input = ''ignored'', thesisTitle = ''Other Study''\<rparr>"
      "''2024-01-15T08:30:00.000Z''"]
  by (simp add: handleSubmit_insert_def submissionData_def)

section \<open>Quoting in the export\<close>

text \<open>
  Claim C10.  The export puts a double quote on each side of the raw value of every
  field and escapes nothing: each field of each row of the view stands in the text between
  two double quotes as it is, and a row is its seven quoted fields joined by commas.  So
  the text does not determine the fields: two rows with different fields export to the
  same text, and a row with a line feed in its title exports to more than one line.
\<close>

theorem export_fields_unescaped:
  "(\<forall>r \<in> set view. \<forall>field \<in> set (exportFields E r).
      sublist ([CHR 0x22] @ field @ [CHR 0x22]) (csvContent E view))
   \<and> exportRow E r =
       [CHR 0x22] @ full_name r @ [CHR 0x22] @ '','' @
       [CHR 0x22] @ user_type r @ [CHR 0x22] @ '','' @
       [CHR 0x22] @ idSchoolValue r @ [CHR 0x22] @ '','' @
       [CHR 0x22] @ campus r @ [CHR 0x22] @ '','' @
       [CHR 0x22] @ orEmpty (program r) @ [CHR 0x22] @ '','' @
       [CHR 0x22] @ thesis_title r @ [CHR 0x22] @ '','' @
       [CHR 0x22] @ toLocaleDateString E (Date_parse E (submission_date r)) @ [CHR 0x22]
   \<and> csvContent E [ann_long_title] = csvContent E [ann_long_name]
   \<and> exportFields E ann_long_title \<noteq> exportFields E ann_long_name
   \<and> length (filter (\<lambda>ch. ch = CHR 0x0A) (csvContent E [two_line_title])) \<ge> 2"
proof -
  have a: "\<forall>r \<in> set view. \<forall>field \<in> set (exportFields E r).
      sublist ([CHR 0x22] @ field @ [CHR 0x22]) (csvContent E view)"
    using quoted_in_csv by blast
  have b: "csvContent E [ann_long_title] = csvContent E [ann_long_name]"
    by (simp add: csvContent_def exportRow_explicit ann_long_title_def ann_long_name_def
        fieldBreak_def idSchoolValue_def orEmpty_def)
  have d: "exportFields E ann_long_title \<noteq> exportFields E ann_long_name"
    by (simp add: exportFields_def ann_long_title_def ann_long_name_def fieldBreak_def)
  have e: "length (filter (\<lambda>ch. ch = CHR 0x0A) (csvContent E [two_line_title])) \<ge> 2"
    by (simp add: csvContent_def exportRow_explicit two_line_title_def alice_def)
  from a exportRow_explicit [of E r] b d e show ?thesis by blast
qed

theorem export_fields_unescaped_witness:
  "ann_long_name \<in> set [ann_long_name]
   \<and> full_name ann_long_name \<in> set (exportFields (referenceRuntime 0) ann_long_name)
   \<and> CHR 0x22 \<in> set (full_name ann_long_name)
   \<and> sublist ([CHR 0x22] @ full_name ann_long_name @ [CHR 0x22])
        (csvContent (referenceRuntime 0) [ann_long_name])"
proof -
  have m: "ann_long_name \<in> set [ann_long_name]" by simp
  have f: "full_name ann_long_name \<in> set (exportFields (referenceRuntime 0) ann_long_name)"
    by (simp add: exportFields_def)
  have q: "CHR 0x22 \<in> set (full_name ann_long_name)"
    by (simp add: ann_long_name_def fieldBreak_def)
  from export_fields_unescaped [of "[ann_long_name]" "referenceRuntime 0" ann_long_name] m f
  have "sublist ([CHR 0x22] @ full_name ann_long_name @ [CHR 0x22])
        (csvContent (referenceRuntime 0) [ann_long_name])"
    by blast
  with m f q show ?thesis by blast
qed

end
